theory Spec2Isabelle
  imports Main
begin

section \<open>Python text\<close>

text \<open>
  A Python \<open>str\<close> is a sequence of Unicode code points, and \<open>ord(c)\<close> is the code point of
  the one-character string \<open>c\<close>.  A character is therefore modelled by its code point (a
  natural number), not by the 8-bit \<open>char\<close> of HOL, and a string by the list of its code
  points.  \<open>str\<close> turns an ASCII literal of the source into such a list.
\<close>

type_synonym pychar = nat
type_synonym pystr = "pychar list"

definition str :: "string \<Rightarrow> pystr" where
  "str s = map of_char s"

definition NL :: pychar where "NL = 10"   \<comment> \<open>\<open>'\n'\<close>\<close>
definition CR :: pychar where "CR = 13"   \<comment> \<open>\<open>'\r'\<close>\<close>
definition TAB :: pychar where "TAB = 9"  \<comment> \<open>\<open>'\t'\<close>\<close>

definition REPLACEMENT :: pychar where
  "REPLACEMENT = 65533"   \<comment> \<open>U+FFFD, what \<open>errors='replace'\<close> puts for undecodable input\<close>

text \<open>
  \<open>str.strip()\<close> without an argument removes leading and trailing whitespace, where
  whitespace is what \<open>str.isspace\<close> accepts: in CPython the code points
  U+0009..U+000D, U+001C..U+0020, U+0085, U+00A0, U+1680, U+2000..U+200A, U+2028, U+2029,
  U+202F, U+205F and U+3000.
\<close>

definition isspace :: "pychar \<Rightarrow> bool" where
  "isspace c \<longleftrightarrow>
     (9 \<le> c \<and> c \<le> 13) \<or> (28 \<le> c \<and> c \<le> 32) \<or> c = 133 \<or> c = 160 \<or> c = 5760 \<or>
     (8192 \<le> c \<and> c \<le> 8202) \<or> c = 8232 \<or> c = 8233 \<or> c = 8239 \<or> c = 8287 \<or> c = 12288"

definition strip :: "pystr \<Rightarrow> pystr" where
  "strip s = rev (dropWhile isspace (rev (dropWhile isspace s)))"

text \<open>
  \<open>s.split(sep)\<close> for a one-character separator: the pieces between the occurrences of
  \<open>sep\<close>; the result is never empty (\<open>''.split('\n') == ['']\<close>).
\<close>

fun split :: "pychar \<Rightarrow> pystr \<Rightarrow> pystr list" where
  "split sep [] = [[]]"
| "split sep (c # cs) =
     (if c = sep then [] # split sep cs
      else (case split sep cs of
              [] \<Rightarrow> [[c]]
            | l # ls \<Rightarrow> (c # l) # ls))"

text \<open>\<open>sep.join(lines)\<close>.\<close>

fun join :: "pystr \<Rightarrow> pystr list \<Rightarrow> pystr" where
  "join sep [] = []"
| "join sep [l] = l"
| "join sep (l # ls) = l @ sep @ join sep ls"

text \<open>
  \<open>xs[-n:]\<close> for a positive \<open>n\<close>: the last \<open>n\<close> elements, or all of \<open>xs\<close> when it has
  fewer.
\<close>

definition last_n :: "nat \<Rightarrow> 'a list \<Rightarrow> 'a list" where
  "last_n n xs = drop (length xs - n) xs"

text \<open>The decimal digits of a natural number, and \<open>str(i)\<close> for a Python integer.\<close>

fun digits :: "nat \<Rightarrow> pystr" where
  "digits n = (if n < 10 then [48 + n] else digits (n div 10) @ [48 + n mod 10])"

declare digits.simps [simp del]

definition str_int :: "int \<Rightarrow> pystr" where
  "str_int i = (if i < 0 then 45 # digits (nat (- i)) else digits (nat i))"

section \<open>Decoding the captured bytes\<close>

text \<open>
  \<open>stdout.read()\<close> returns bytes, and \<open>.decode('utf-8', errors='replace')\<close> is the
  library's decoder, which never fails: it reads the bytes as a sequence of well-formed
  UTF-8 sequences, each standing for one code point, and of undecodable sequences.  The
  captured bytes are modelled already cut into these segments.
\<close>

datatype utf8_segment =
    WellFormed pychar        \<comment> \<open>a well-formed sequence, with the code point it encodes\<close>
  | Undecodable "nat list"   \<comment> \<open>the bytes of a sequence the decoder rejects\<close>

type_synonym pybytes = "utf8_segment list"

text \<open>
  Modelled from the spec: \<open>bytes.decode('utf-8', errors='replace')\<close> is the Python
  library's, not this repository's ("decodes captured standard output as text, replacing
  undecodable bytes rather than failing"): a well-formed sequence gives its code point, an
  undecodable one gives U+FFFD.
\<close>

fun decode_segment :: "utf8_segment \<Rightarrow> pychar" where
  "decode_segment (WellFormed c) = c"
| "decode_segment (Undecodable bs) = REPLACEMENT"

definition decode_utf8_replace :: "pybytes \<Rightarrow> pystr" where
  "decode_utf8_replace raw = map decode_segment raw"

fun is_well_formed :: "utf8_segment \<Rightarrow> bool" where
  "is_well_formed (WellFormed c) = True"
| "is_well_formed (Undecodable bs) = False"

section \<open>The command runner\<close>

text \<open>
  What the program does to the outside is recorded as a trace of events, in order: each
  call of \<open>print\<close> with the text it is given, the creation of the SSH client, the
  connection attempt, each command dispatched with \<open>exec_command\<close> and its timeout, and
  the closing of the session.  Writing to standard output is taken to succeed, and so are
  the creation and the closing of the client.
\<close>

datatype event =
    Print pystr
  | NewClient
  | Connect pystr pystr pystr nat   \<comment> \<open>host, username, password, timeout\<close>
  | ExecCommand pystr nat           \<comment> \<open>command, timeout\<close>
  | Close

text \<open>An exception (of class \<open>Exception\<close>), with the text \<open>str(e)\<close> it prints as.\<close>

datatype pyexc = PyExc pystr

fun message :: "pyexc \<Rightarrow> pystr" where
  "message (PyExc m) = m"

text \<open>
  What the remote side answers to one \<open>exec_command\<close>: the call raises (no channel, a
  timeout), or the command runs to an exit status and leaves two streams, each of which
  either yields its bytes or raises when read.
\<close>

datatype exec_outcome =
    ExecRaises pyexc
  | Completed int "pyexc + pybytes" "pyexc + pybytes"   \<comment> \<open>exit status, stdout, stderr\<close>

text \<open>Line 19: the characters of the decoded output that are kept.\<close>

definition keep_char :: "pychar \<Rightarrow> bool" where
  "keep_char c \<longleftrightarrow> c < 128 \<or> c \<in> set [NL, CR, TAB]"

definition clean_output :: "pystr \<Rightarrow> pystr" where
  "clean_output output = filter keep_char output"

definition truncated_msg :: "int \<Rightarrow> pystr" where
  "truncated_msg k = str ''... ['' @ str_int k @ str '' lines truncated] ...''"

text \<open>Lines 19 to 25: what is printed for a decoded output.\<close>

definition output_block :: "pystr \<Rightarrow> pystr list" where
  "output_block output =
     (let cleaned = clean_output output in
      if strip cleaned \<noteq> [] then
        (let lines = split NL (strip cleaned) in
         if length lines > 50
         then [truncated_msg (int (length lines) - 50), join [NL] (last_n 50 lines)]
         else [join [NL] lines])
      else [])"

text \<open>Lines 17 to 27: the \<open>try\<close> block around reading and showing standard output.\<close>

fun show_output :: "pyexc + pybytes \<Rightarrow> event list" where
  "show_output (Inr raw) = map Print (output_block (decode_utf8_replace raw))"
| "show_output (Inl e) = [Print (str ''[Output encoding error: '' @ message e @ str '']'')]"

text \<open>Lines 29 to 35: standard error, read only after a non-zero exit status.\<close>

fun show_error :: "int \<Rightarrow> pyexc + pybytes \<Rightarrow> event list" where
  "show_error exit_status (Inr raw) =
     (if exit_status \<noteq> 0 then
        (let error = decode_utf8_replace raw in
         if strip error \<noteq> [] then [Print (str ''Error: '' @ error)] else [])
      else [])"
| "show_error exit_status (Inl e) = []"

text \<open>
  \<open>run_command\<close>: the events it causes, and either the exception it raises or the exit
  status it returns.
\<close>

fun run_command :: "exec_outcome \<Rightarrow> pystr \<Rightarrow> nat \<Rightarrow> event list \<times> (pyexc + int)" where
  "run_command (ExecRaises e) command timeout =
     ([Print (NL # str ''>>> '' @ command), ExecCommand command timeout], Inl e)"
| "run_command (Completed exit_status out err) command timeout =
     ([Print (NL # str ''>>> '' @ command), ExecCommand command timeout]
        @ show_output out @ show_error exit_status err,
      Inr exit_status)"

section \<open>The provisioning sequence\<close>

text \<open>
  The body of \<open>main\<close>'s \<open>try\<close> block after the connection (lines 60 to 107) is
  straight-line code: calls of \<open>print\<close> and calls of \<open>run_command\<close>, whose return value
  is dropped.  It is kept as the list of these statements in source order; a command
  without a \<open>timeout\<close> argument has the default 300.
\<close>

datatype step =
    Say pystr       \<comment> \<open>\<open>print(text)\<close>\<close>
  | Run pystr nat   \<comment> \<open>\<open>run_command(ssh, command, timeout)\<close>\<close>

definition rule50 :: pystr where
  "rule50 = replicate 50 (of_char CHR ''='')"   \<comment> \<open>\<open>"=" * 50\<close>\<close>

definition health_check :: pystr where
  "health_check = str ''curl -s http://localhost:3001/api/health''"

definition clone_command :: "pystr \<Rightarrow> pystr" where
  "clone_command GITHUB_REPO =
     str ''rm -rf /opt/claude-dev-hub/app && git clone '' @ GITHUB_REPO
       @ str '' /opt/claude-dev-hub/app 2>&1''"

definition provisioning_script :: "pystr \<Rightarrow> pystr \<Rightarrow> step list" where
  "provisioning_script HOST GITHUB_REPO =
    [Say (str ''Connected successfully!'' @ [NL]),
     Say (NL # str ''[1/10] Updating system packages...''),
     Run (str ''apt update && DEBIAN_FRONTEND=noninteractive apt upgrade -y 2>&1 | tail -20'') 600,
     Say (NL # str ''[2/10] Installing Node.js 20.x...''),
     Run (str ''curl -fsSL https://deb.nodesource.com/setup_20.x | bash - 2>&1 | tail -5'') 120,
     Run (str ''apt install -y nodejs 2>&1 | tail -5'') 120,
     Say (NL # str ''[3/10] Installing build essentials...''),
     Run (str ''apt install -y build-essential python3 2>&1 | tail -5'') 120,
     Say (NL # str ''[4/10] Installing Git...''),
     Run (str ''apt install -y git 2>&1 | tail -3'') 60,
     Say (NL # str ''[5/10] Installing PM2...''),
     Run (str ''npm install -g pm2 2>&1 | tail -5'') 120,
     Say (NL # str ''[6/10] Installing Claude Code CLI...''),
     Run (str ''npm install -g @anthropic-ai/claude-code 2>&1 | tail -5'') 180,
     Say (NL # str ''[7/10] Installing Nginx...''),
     Run (str ''apt install -y nginx 2>&1 | tail -5'') 120,
     Say (NL # str ''[8/10] Cloning repository...''),
     Run (str ''mkdir -p /opt/claude-dev-hub/projects /opt/claude-dev-hub/data'') 300,
     Run (clone_command GITHUB_REPO) 120,
     Say (NL # str ''[9/10] Installing dependencies and building...''),
     Run (str ''cd /opt/claude-dev-hub/app && npm install 2>&1 | tail -10'') 300,
     Run (str ''cd /opt/claude-dev-hub/app && npm run build 2>&1 | tail -10'') 300,
     Say (NL # str ''[10/10] Configuring and starting services...''),
     Run (str ''cp /opt/claude-dev-hub/app/nginx.conf /etc/nginx/sites-available/claude-dev-hub'') 300,
     Run (str ''ln -sf /etc/nginx/sites-available/claude-dev-hub /etc/nginx/sites-enabled/'') 300,
     Run (str ''rm -f /etc/nginx/sites-enabled/default'') 300,
     Run (str ''nginx -t && systemctl restart nginx'') 300,
     Run (str ''cd /opt/claude-dev-hub/app && pm2 delete claude-dev-hub 2>/dev/null; pm2 start ecosystem.config.js 2>&1 | tail -5'') 300,
     Run (str ''pm2 save'') 300,
     Say (NL # str ''[Checking status...]''),
     Run health_check 300,
     Say (NL # rule50),
     Say (str ''SETUP COMPLETE!''),
     Say rule50,
     Say (NL # str ''Your Claude Dev Hub is running at: http://'' @ HOST),
     Say rule50]"

text \<open>
  Running the statements in order.  \<open>remote k\<close> is what the remote side answers to the
  \<open>k\<close>-th dispatched command (counted from 0).  An exception raised by \<open>run_command\<close>
  ends the run there; its exit status is not looked at.
\<close>

fun run_steps :: "(nat \<Rightarrow> exec_outcome) \<Rightarrow> nat \<Rightarrow> step list \<Rightarrow> event list \<times> pyexc option" where
  "run_steps remote k [] = ([], None)"
| "run_steps remote k (Say text # rest) =
     (case run_steps remote k rest of (evs, r) \<Rightarrow> (Print text # evs, r))"
| "run_steps remote k (Run command timeout # rest) =
     (case run_command (remote k) command timeout of
        (evs, Inl e) \<Rightarrow> (evs, Some e)
      | (evs, Inr exit_status) \<Rightarrow>
          (case run_steps remote (Suc k) rest of (evs', r) \<Rightarrow> (evs @ evs', r)))"

text \<open>
  Lines 58 to 113: the \<open>try\<close> block.  \<open>connect_result\<close> is the exception
  \<open>ssh.connect\<close> raises, or \<open>None\<close> when the session is established.
\<close>

definition try_body ::
  "pyexc option \<Rightarrow> (nat \<Rightarrow> exec_outcome) \<Rightarrow> pystr \<Rightarrow> pystr \<Rightarrow> event list \<times> pyexc option" where
  "try_body connect_result remote HOST GITHUB_REPO =
     (case connect_result of
        Some e \<Rightarrow> ([], Some e)
      | None \<Rightarrow> run_steps remote 0 (provisioning_script HOST GITHUB_REPO))"

text \<open>
  \<open>main\<close>: \<open>argv\<close> is \<open>sys.argv\<close> (the script's name first).  The result is the trace and
  the exit status of the process: \<open>sys.exit(1)\<close> gives 1, the \<open>finally\<close> clause closes the
  session on the way out, and returning from \<open>main\<close> ends the script with status 0.
  Line 56 (\<open>set_missing_host_key_policy\<close>) only stores a policy object in the client and
  leaves no event.
\<close>

definition main :: "pystr list \<Rightarrow> pyexc option \<Rightarrow> (nat \<Rightarrow> exec_outcome) \<Rightarrow> event list \<times> nat" where
  "main argv connect_result remote =
     (if length argv < 5 then
        ([Print (str ''Usage: python setup_remote.py <host> <user> <password> <github_repo_url>''),
          Print (str ''Example: python setup_remote.py 194.163.144.206 root mypassword https://github.com/user/repo.git'')],
         1)
      else
        (let HOST = argv ! 1; USER = argv ! 2; PASSWORD = argv ! 3; GITHUB_REPO = argv ! 4;
             before =
               [Print rule50,
                Print (str ''Claude Dev Hub - Remote Server Setup''),
                Print rule50,
                Print (NL # str ''Connecting to '' @ HOST @ str ''...''),
                NewClient,
                Connect HOST USER PASSWORD 30]
         in case try_body connect_result remote HOST GITHUB_REPO of
              (evs, Some e) \<Rightarrow>
                (before @ evs @ [Print (NL # str ''Error: '' @ message e), Close], 1)
            | (evs, None) \<Rightarrow> (before @ evs @ [Close], 0)))"

text \<open>The commands a trace dispatched, in order, and the number of command-line arguments.\<close>

fun dispatched :: "event list \<Rightarrow> (pystr \<times> nat) list" where
  "dispatched [] = []"
| "dispatched (ExecCommand command timeout # evs) = (command, timeout) # dispatched evs"
| "dispatched (ev # evs) = dispatched evs"

definition num_args :: "pystr list \<Rightarrow> nat" where
  "num_args argv = length argv - 1"

section \<open>Notions used to state the properties\<close>

text \<open>
  The spec describes the filter of line 19 as keeping "printable ASCII plus
  newline/carriage-return/tab".  This is that description, written down from the spec's
  words to be compared with \<open>keep_char\<close>: printable ASCII is U+0020 to U+007E.
\<close>

definition printable_ascii :: "pychar \<Rightarrow> bool" where
  "printable_ascii c \<longleftrightarrow> 32 \<le> c \<and> c \<le> 126"

definition spec_keep_char :: "pychar \<Rightarrow> bool" where
  "spec_keep_char c \<longleftrightarrow> printable_ascii c \<or> c = NL \<or> c = CR \<or> c = TAB"

text \<open>An \<open>exec_command\<close> that raises, and the events that concern the session itself.\<close>

fun raises :: "exec_outcome \<Rightarrow> bool" where
  "raises (ExecRaises e) = True"
| "raises (Completed exit_status out err) = False"

fun is_session_event :: "event \<Rightarrow> bool" where
  "is_session_event NewClient = True"
| "is_session_event (Connect host user password timeout) = True"
| "is_session_event Close = True"
| "is_session_event ev = False"

text \<open>The commands a list of statements asks for, in order.\<close>

fun runs :: "step list \<Rightarrow> (pystr \<times> nat) list" where
  "runs [] = []"
| "runs (Say text # rest) = runs rest"
| "runs (Run command timeout # rest) = (command, timeout) # runs rest"

text \<open>
  The nineteen commands of lines 63 to 101 with their timeouts, in source order.  They follow
  the spec's list of steps: update the packages; the JavaScript runtime (two commands); the
  compiler toolchain; the version-control tool; the process supervisor; the CLI application;
  the reverse proxy; the directories and the clone; dependencies and build; the proxy's site
  configuration, its restart and the managed process (six commands); the health check.
\<close>

definition expected_commands :: "pystr \<Rightarrow> (pystr \<times> nat) list" where
  "expected_commands GITHUB_REPO =
    [(str ''apt update && DEBIAN_FRONTEND=noninteractive apt upgrade -y 2>&1 | tail -20'', 600),
     (str ''curl -fsSL https://deb.nodesource.com/setup_20.x | bash - 2>&1 | tail -5'', 120),
     (str ''apt install -y nodejs 2>&1 | tail -5'', 120),
     (str ''apt install -y build-essential python3 2>&1 | tail -5'', 120),
     (str ''apt install -y git 2>&1 | tail -3'', 60),
     (str ''npm install -g pm2 2>&1 | tail -5'', 120),
     (str ''npm install -g @anthropic-ai/claude-code 2>&1 | tail -5'', 180),
     (str ''apt install -y nginx 2>&1 | tail -5'', 120),
     (str ''mkdir -p /opt/claude-dev-hub/projects /opt/claude-dev-hub/data'', 300),
     (str ''rm -rf /opt/claude-dev-hub/app && git clone '' @ GITHUB_REPO
        @ str '' /opt/claude-dev-hub/app 2>&1'', 120),
     (str ''cd /opt/claude-dev-hub/app && npm install 2>&1 | tail -10'', 300),
     (str ''cd /opt/claude-dev-hub/app && npm run build 2>&1 | tail -10'', 300),
     (str ''cp /opt/claude-dev-hub/app/nginx.conf /etc/nginx/sites-available/claude-dev-hub'', 300),
     (str ''ln -sf /etc/nginx/sites-available/claude-dev-hub /etc/nginx/sites-enabled/'', 300),
     (str ''rm -f /etc/nginx/sites-enabled/default'', 300),
     (str ''nginx -t && systemctl restart nginx'', 300),
     (str ''cd /opt/claude-dev-hub/app && pm2 delete claude-dev-hub 2>/dev/null; pm2 start ecosystem.config.js 2>&1 | tail -5'', 300),
     (str ''pm2 save'', 300),
     (str ''curl -s http://localhost:3001/api/health'', 300)]"

text \<open>Concrete inputs: a command line with the four arguments, and an output of 52 lines.\<close>

definition sample_argv :: "pystr list" where
  "sample_argv =
     [str ''setup_remote.py'', str ''203.0.113.7'', str ''root'', str ''secret'',
      str ''https://github.com/user/repo.git'']"

definition fifty_two_lines :: pybytes where
  "fifty_two_lines = map WellFormed (concat (replicate 52 (str ''x'' @ [NL])))"

section \<open>Facts about the text operations\<close>

lemma strip_Nil_iff: "strip s = [] \<longleftrightarrow> (\<forall>c\<in>set s. isspace c)"
proof
  assume "strip s = []"
  then have a: "\<forall>c\<in>set (dropWhile isspace s). isspace c"
    by (simp add: strip_def)
  have "dropWhile isspace s = []"
  proof (rule ccontr)
    assume n: "dropWhile isspace s \<noteq> []"
    then have "\<not> isspace (hd (dropWhile isspace s))" by (rule hd_dropWhile)
    moreover have "hd (dropWhile isspace s) \<in> set (dropWhile isspace s)" using n by simp
    ultimately show False using a by blast
  qed
  then show "\<forall>c\<in>set s. isspace c" by simp
next
  assume "\<forall>c\<in>set s. isspace c"
  then show "strip s = []"
    by (auto simp: strip_def dest: set_dropWhileD)
qed

text \<open>\<open>split\<close> and \<open>join\<close> behave as Python's: joining the pieces gives the text back.\<close>

lemma split_not_Nil: "split sep s \<noteq> []"
  by (induction s) (auto split: list.splits)

lemma join_Cons: "ls \<noteq> [] \<Longrightarrow> join sep (l # ls) = l @ sep @ join sep ls"
  by (cases ls) simp_all

lemma join_split: "join [sep] (split sep s) = s"
proof (induction s)
  case Nil
  show ?case by simp
next
  case (Cons c cs)
  show ?case
  proof (cases "c = sep")
    case True
    with Cons show ?thesis by (simp add: join_Cons split_not_Nil)
  next
    case False
    obtain l ls where sp: "split sep cs = l # ls"
      using split_not_Nil [of sep cs] by (cases "split sep cs") auto
    with Cons False show ?thesis
      by (cases ls) simp_all
  qed
qed

lemma split_no_sep: "l \<in> set (split sep s) \<Longrightarrow> sep \<notin> set l"
proof (induction s arbitrary: l)
  case Nil
  then show ?case by simp
next
  case (Cons c cs)
  then show ?case
    by (cases "split sep cs") (auto split: if_splits)
qed

lemma str_eq_iff: "str a = str b \<longleftrightarrow> a = b"
  unfolding str_def by (simp add: inj_map_eq_map [OF inj_of_char])

lemma keep_char_iff: "keep_char c \<longleftrightarrow> c < 128"
  by (auto simp: keep_char_def NL_def CR_def TAB_def)

lemma clean_output_below_128: "clean_output output = filter (\<lambda>c. c < 128) output"
  unfolding clean_output_def by (rule filter_cong) (simp_all add: keep_char_iff)

lemma clean_output_replacement: "REPLACEMENT \<notin> set (clean_output output)"
  by (simp add: clean_output_below_128 REPLACEMENT_def)

lemma clean_output_decode_well_formed:
  "clean_output (decode_utf8_replace (filter is_well_formed raw)) =
   clean_output (decode_utf8_replace raw)"
proof (induction raw)
  case Nil
  show ?case by simp
next
  case (Cons s raw)
  then show ?case
    by (cases s) (simp_all add: decode_utf8_replace_def clean_output_below_128 REPLACEMENT_def)
qed

lemma fifty_two_lines_split:
  "split NL (strip (clean_output (decode_utf8_replace fifty_two_lines))) = replicate 52 (str ''x'')"
  by code_simp

section \<open>Facts about traces\<close>

lemma dispatched_append: "dispatched (xs @ ys) = dispatched xs @ dispatched ys"
  by (induction xs rule: dispatched.induct) simp_all

lemma dispatched_prints: "dispatched (map Print ts) = []"
  by (induction ts) simp_all

lemma dispatched_show_output: "dispatched (show_output out) = []"
  by (cases out) (simp_all add: dispatched_prints)

lemma dispatched_show_error: "dispatched (show_error st err) = []"
  by (cases err) (simp_all add: Let_def)

lemma show_output_no_session_event:
  "ev \<in> set (show_output out) \<Longrightarrow> \<not> is_session_event ev"
  by (cases out) auto

lemma show_error_no_session_event:
  "ev \<in> set (show_error st err) \<Longrightarrow> \<not> is_session_event ev"
  by (cases err) (auto simp: Let_def split: if_splits)

lemma run_command_no_session_event:
  "ev \<in> set (fst (run_command oc command timeout)) \<Longrightarrow> \<not> is_session_event ev"
  by (cases oc) (auto dest: show_output_no_session_event show_error_no_session_event)

text \<open>
  When none of the commands it reaches raises, a list of statements runs to its end and
  dispatches each of its commands once, in order, whatever their exit statuses.
\<close>

lemma run_steps_completes:
  "(\<forall>j < length (runs steps). \<not> raises (remote (k + j))) \<Longrightarrow>
     snd (run_steps remote k steps) = None \<and>
     dispatched (fst (run_steps remote k steps)) = runs steps"
proof (induction steps arbitrary: k)
  case Nil
  show ?case by simp
next
  case (Cons s steps)
  show ?case
  proof (cases s)
    case (Say msg)
    with Cons.prems have "\<forall>j < length (runs steps). \<not> raises (remote (k + j))" by simp
    from Cons.IH [OF this] Say show ?thesis
      by (simp add: split_beta)
  next
    case (Run c t)
    from Cons.prems Run have h0: "\<not> raises (remote k)" by force
    then obtain st out err where oc: "remote k = Completed st out err"
      by (cases "remote k") simp_all
    from Cons.prems Run have "\<forall>j < length (runs steps). \<not> raises (remote (Suc k + j))"
      by force
    from Cons.IH [OF this] Run oc show ?thesis
      by (simp add: split_beta dispatched_append dispatched_show_output dispatched_show_error)
  qed
qed

text \<open>Running statements never creates, connects or closes the session.\<close>

lemma run_steps_no_session_event:
  "ev \<in> set (fst (run_steps remote k steps)) \<Longrightarrow> \<not> is_session_event ev"
proof (induction steps arbitrary: k)
  case Nil
  then show ?case by simp
next
  case (Cons s steps)
  show ?case
  proof (cases s)
    case (Say msg)
    with Cons show ?thesis by (auto simp: split_beta)
  next
    case (Run c t)
    show ?thesis
    proof (cases "run_command (remote k) c t")
      case (Pair evs r)
      have a: "\<And>ev. ev \<in> set evs \<Longrightarrow> \<not> is_session_event ev"
        using run_command_no_session_event [of _ "remote k" c t] Pair by simp
      show ?thesis
      proof (cases r)
        case (Inl e)
        with Cons.prems Run Pair a show ?thesis by auto
      next
        case (Inr st)
        with Cons.prems Run Pair a Cons.IH [of "Suc k"] show ?thesis
          by (auto simp: split_beta)
      qed
    qed
  qed
qed

lemma runs_script: "runs (provisioning_script h r) = expected_commands r"
  by (simp add: provisioning_script_def expected_commands_def clone_command_def health_check_def)

lemma length_runs_script: "length (runs (provisioning_script h r)) = 19"
  by (simp add: runs_script expected_commands_def)

lemma health_check_once:
  "count_list (map fst (expected_commands r)) (str ''curl -s http://localhost:3001/api/health'') = 1"
  by (simp add: expected_commands_def str_eq_iff) (simp add: str_def)

lemma last_expected:
  "last (map fst (expected_commands r)) = str ''curl -s http://localhost:3001/api/health''"
  by (simp add: expected_commands_def)

lemma num_args_less: "num_args argv < 4 \<longleftrightarrow> length argv < 5"
  by (auto simp: num_args_def)

lemma num_args_ge: "4 \<le> num_args argv \<longleftrightarrow> \<not> length argv < 5"
  by (auto simp: num_args_def)

lemma new_client_created:
  "4 \<le> num_args argv \<Longrightarrow> NewClient \<in> set (fst (main argv connect_result remote))"
  by (cases "try_body connect_result remote (argv ! 1) (argv ! 4)")
     (auto simp: main_def Let_def num_args_ge split: option.splits)

section \<open>The command runner: output\<close>

text \<open>
  C1: when the filtered and stripped output of a command has more than 50 lines,
  \<open>run_command\<close> prints, after the banner, a message with the number of lines minus 50
  and then exactly the last 50 lines (joined by newlines); only the report of standard
  error may follow.
\<close>

theorem run_command_truncates_to_last_50:
  assumes "lines = split NL (strip (clean_output (decode_utf8_replace raw)))"
    and "50 < length lines"
  shows "fst (run_command (Completed exit_status (Inr raw) err) command timeout) =
           [Print (NL # str ''>>> '' @ command),
            ExecCommand command timeout,
            Print (str ''... ['' @ str_int (int (length lines) - 50) @ str '' lines truncated] ...''),
            Print (join [NL] (drop (length lines - 50) lines))]
           @ show_error exit_status err
         \<and> length (drop (length lines - 50) lines) = 50"
proof -
  have "strip (clean_output (decode_utf8_replace raw)) \<noteq> []"
  proof
    assume "strip (clean_output (decode_utf8_replace raw)) = []"
    with assms show False by simp
  qed
  with assms show ?thesis
    by (simp add: output_block_def Let_def truncated_msg_def last_n_def)
qed

theorem run_command_truncates_to_last_50_witness:
  "fst (run_command (Completed 0 (Inr fifty_two_lines) (Inr [])) (str ''ls'') 300) =
     [Print (NL # str ''>>> ls''),
      ExecCommand (str ''ls'') 300,
      Print (str ''... [2 lines truncated] ...''),
      Print (join [NL] (replicate 50 (str ''x'')))]"
proof -
  have l: "replicate 52 (str ''x'') =
      split NL (strip (clean_output (decode_utf8_replace fifty_two_lines)))"
    by (simp add: fifty_two_lines_split)
  have n: "50 < length (replicate 52 (str ''x''))"
    by simp
  from run_command_truncates_to_last_50 [OF l n, of 0 "Inr []" "str ''ls''" 300]
  show ?thesis
    by (simp add: str_int_def digits.simps str_def)
qed



text \<open>
  C3: on a decoded output made only of printable ASCII characters, newlines, carriage
  returns and tabs, the filter changes nothing.
\<close>

theorem clean_output_identity_on_printable:
  "\<forall>c\<in>set output. spec_keep_char c \<Longrightarrow> clean_output output = output"
  unfolding clean_output_def
  by (rule filter_True) (auto simp: keep_char_def spec_keep_char_def printable_ascii_def)

theorem clean_output_identity_on_printable_witness:
  "list_all spec_keep_char (str ''ok'' @ [NL])
   \<and> clean_output (str ''ok'' @ [NL]) = str ''ok'' @ [NL]"
proof -
  have h: "\<forall>c\<in>set (str ''ok'' @ [NL]). spec_keep_char c"
    by (simp add: str_def spec_keep_char_def printable_ascii_def NL_def)
  from clean_output_identity_on_printable [OF h] h show ?thesis
    by (simp add: list_all_iff)
qed

text \<open>
  C9: the decoder puts U+FFFD for each undecodable sequence, and the filter removes it:
  the filtered text holds no U+FFFD, and it is the same text, and so is everything
  \<open>run_command\<close> prints for the output, as if the undecodable sequences had not been in
  the captured bytes at all.
\<close>

theorem undecodable_bytes_leave_no_trace:
  "REPLACEMENT \<notin> set (clean_output (decode_utf8_replace raw))
   \<and> clean_output (decode_utf8_replace raw) =
       clean_output (decode_utf8_replace (filter is_well_formed raw))
   \<and> show_output (Inr raw) = show_output (Inr (filter is_well_formed raw))"
  by (simp add: clean_output_replacement clean_output_decode_well_formed output_block_def)

text \<open>
  C10: when the decoded and filtered output is empty or only whitespace, \<open>run_command\<close>
  prints the banner and nothing for the output (no text, no truncation message); only the
  report of standard error may follow, and the exit status is returned.
\<close>

theorem run_command_silent_on_blank_output:
  "\<forall>c\<in>set (clean_output (decode_utf8_replace raw)). isspace c \<Longrightarrow>
     run_command (Completed exit_status (Inr raw) err) command timeout =
       ([Print (NL # str ''>>> '' @ command), ExecCommand command timeout]
          @ show_error exit_status err,
        Inr exit_status)"
  by (simp add: output_block_def strip_Nil_iff)

theorem run_command_silent_on_blank_output_witness:
  "run_command
     (Completed 0 (Inr [WellFormed 32, Undecodable [255], WellFormed 233, WellFormed 10]) (Inr []))
     (str ''true'') 300 =
     ([Print (NL # str ''>>> true''), ExecCommand (str ''true'') 300], Inr 0)"
  using run_command_silent_on_blank_output
    [of "[WellFormed 32, Undecodable [255], WellFormed 233, WellFormed 10]" 0 "Inr []"
        "str ''true''" 300]
  by (simp add: clean_output_def keep_char_def decode_utf8_replace_def isspace_def
      REPLACEMENT_def NL_def CR_def TAB_def str_def)

section \<open>The command runner: standard error and the exit status\<close>


section \<open>The provisioning sequence: exits and order\<close>

text \<open>
  C4: with fewer than four command-line arguments, \<open>main\<close> prints the two lines of usage
  text and the process exits with status 1; the trace holds nothing else: no client is
  created, no connection attempted, no command dispatched.
\<close>

theorem main_usage_on_few_arguments:
  "num_args argv < 4 \<Longrightarrow>
     main argv connect_result remote =
       ([Print (str ''Usage: python setup_remote.py <host> <user> <password> <github_repo_url>''),
         Print (str ''Example: python setup_remote.py 194.163.144.206 root mypassword https://github.com/user/repo.git'')],
        1)
     \<and> filter is_session_event (fst (main argv connect_result remote)) = []
     \<and> dispatched (fst (main argv connect_result remote)) = []"
  by (simp add: main_def num_args_less)

theorem main_usage_on_few_arguments_witness:
  "main [str ''setup_remote.py'', str ''203.0.113.7'', str ''root''] None
        (\<lambda>k. Completed 0 (Inr []) (Inr [])) =
       ([Print (str ''Usage: python setup_remote.py <host> <user> <password> <github_repo_url>''),
         Print (str ''Example: python setup_remote.py 194.163.144.206 root mypassword https://github.com/user/repo.git'')],
        1)"
  using main_usage_on_few_arguments
    [of "[str ''setup_remote.py'', str ''203.0.113.7'', str ''root'']" None
        "\<lambda>k. Completed 0 (Inr []) (Inr [])"]
  by (simp add: num_args_def)

text \<open>
  C5: when \<open>ssh.connect\<close> raises, \<open>main\<close> prints the exception after \<open>Error: \<close>, closes
  the session and the process exits with status 1; no command is dispatched.
\<close>

theorem main_connect_failure:
  "4 \<le> num_args argv \<Longrightarrow>
     main argv (Some e) remote =
       ([Print rule50,
         Print (str ''Claude Dev Hub - Remote Server Setup''),
         Print rule50,
         Print (NL # str ''Connecting to '' @ argv ! 1 @ str ''...''),
         NewClient,
         Connect (argv ! 1) (argv ! 2) (argv ! 3) 30,
         Print (NL # str ''Error: '' @ message e),
         Close], 1)
     \<and> dispatched (fst (main argv (Some e) remote)) = []"
  by (simp add: main_def num_args_ge try_body_def Let_def)

theorem main_connect_failure_witness:
  "main sample_argv (Some (PyExc (str ''timed out''))) (\<lambda>k. ExecRaises (PyExc [])) =
       ([Print rule50,
         Print (str ''Claude Dev Hub - Remote Server Setup''),
         Print rule50,
         Print (NL # str ''Connecting to 203.0.113.7...''),
         NewClient,
         Connect (str ''203.0.113.7'') (str ''root'') (str ''secret'') 30,
         Print (NL # str ''Error: timed out''),
         Close], 1)
   \<and> dispatched (fst (main sample_argv (Some (PyExc (str ''timed out'')))
                          (\<lambda>k. ExecRaises (PyExc [])))) = []"
  using main_connect_failure
    [of sample_argv "PyExc (str ''timed out'')" "\<lambda>k. ExecRaises (PyExc [])"]
  by (simp add: num_args_def sample_argv_def str_def)

text \<open>
  C6: with the four arguments given and the session established, if none of the nineteen
  \<open>exec_command\<close> calls raises, then whatever the exit statuses and the streams of the
  commands, \<open>main\<close> dispatches exactly the nineteen commands in their order; the last is
  the health check, which occurs once; and the process ends with status 0.
\<close>

theorem main_dispatches_in_order:
  assumes "4 \<le> num_args argv" and "\<forall>k<19. \<not> raises (remote k)"
  shows "dispatched (fst (main argv None remote)) = expected_commands (argv ! 4)
     \<and> last (map fst (dispatched (fst (main argv None remote)))) = health_check
     \<and> count_list (map fst (dispatched (fst (main argv None remote)))) health_check = 1
     \<and> snd (main argv None remote) = 0"
proof -
  let ?script = "provisioning_script (argv ! 1) (argv ! 4)"
  from assms(2) have "\<forall>j < length (runs ?script). \<not> raises (remote (0 + j))"
    by (simp add: length_runs_script)
  from run_steps_completes [OF this]
  have r: "snd (run_steps remote 0 ?script) = None"
    and d: "dispatched (fst (run_steps remote 0 ?script)) = expected_commands (argv ! 4)"
    by (simp_all add: runs_script)
  obtain evs where evs: "run_steps remote 0 ?script = (evs, None)"
    using r by (cases "run_steps remote 0 ?script") simp
  have m: "main argv None remote =
     ([Print rule50, Print (str ''Claude Dev Hub - Remote Server Setup''), Print rule50,
       Print (NL # str ''Connecting to '' @ argv ! 1 @ str ''...''), NewClient,
       Connect (argv ! 1) (argv ! 2) (argv ! 3) 30] @ evs @ [Close], 0)"
    using assms(1) evs by (simp add: main_def num_args_ge try_body_def Let_def)
  have d': "dispatched (fst (main argv None remote)) = expected_commands (argv ! 4)"
    using d evs by (simp add: m dispatched_append)
  have s: "snd (main argv None remote) = 0"
    by (simp add: m)
  show ?thesis
    unfolding d' using health_check_once [of "argv ! 4"] last_expected [of "argv ! 4"] s
    by (simp add: health_check_def)
qed

theorem main_dispatches_in_order_witness:
  "dispatched (fst (main sample_argv None (\<lambda>k. Completed (int k) (Inr []) (Inr []))))
     = expected_commands (str ''https://github.com/user/repo.git'')
   \<and> count_list
       (map fst (dispatched (fst (main sample_argv None
                                    (\<lambda>k. Completed (int k) (Inr []) (Inr []))))))
       health_check = 1
   \<and> snd (main sample_argv None (\<lambda>k. Completed (int k) (Inr []) (Inr []))) = 0"
proof -
  have a: "4 \<le> num_args sample_argv"
    by (simp add: num_args_def sample_argv_def)
  have b: "\<forall>k<19. \<not> raises (Completed (int k) (Inr []) (Inr []))"
    by simp
  have c: "sample_argv ! 4 = str ''https://github.com/user/repo.git''"
    by (simp add: sample_argv_def)
  from main_dispatches_in_order
    [of sample_argv "\<lambda>k. Completed (int k) (Inr []) (Inr [])", OF a b, unfolded c]
  show ?thesis by blast
qed

text \<open>
  C7: in every run of \<open>main\<close> in which the SSH client is created (whether the connection
  fails, a command raises or all goes through), the session is closed exactly once, and
  closing it is the last thing the process does.
\<close>

theorem main_closes_session_once:
  "NewClient \<in> set (fst (main argv connect_result remote)) \<Longrightarrow>
     count_list (fst (main argv connect_result remote)) Close = 1
     \<and> last (fst (main argv connect_result remote)) = Close"
proof -
  assume a: "NewClient \<in> set (fst (main argv connect_result remote))"
  have len: "\<not> length argv < 5"
  proof
    assume "length argv < 5"
    with a show False by (simp add: main_def)
  qed
  obtain evs r where tb: "try_body connect_result remote (argv ! 1) (argv ! 4) = (evs, r)"
    by (cases "try_body connect_result remote (argv ! 1) (argv ! 4)")
  have "\<forall>ev\<in>set evs. \<not> is_session_event ev"
  proof (cases connect_result)
    case None
    with tb show ?thesis
      using run_steps_no_session_event [of _ remote 0 "provisioning_script (argv ! 1) (argv ! 4)"]
      by (auto simp: try_body_def)
  next
    case (Some e)
    with tb show ?thesis by (simp add: try_body_def)
  qed
  then have "Close \<notin> set evs" by fastforce
  then have c: "count_list evs Close = 0" by (simp add: count_list_0_iff)
  show ?thesis
    using len tb c by (cases r) (simp_all add: main_def Let_def)
qed

theorem main_closes_session_once_witness:
  "count_list
     (fst (main sample_argv None
             (\<lambda>k. if k = 2 then ExecRaises (PyExc (str ''timed out''))
                   else Completed 0 (Inr []) (Inr []))))
     Close = 1
   \<and> last
       (fst (main sample_argv None
               (\<lambda>k. if k = 2 then ExecRaises (PyExc (str ''timed out''))
                     else Completed 0 (Inr []) (Inr []))))
     = Close"
proof -
  have "4 \<le> num_args sample_argv"
    by (simp add: num_args_def sample_argv_def)
  from main_closes_session_once [OF new_client_created [OF this]] show ?thesis .
qed

end
